theory Spec2Isabelle
  imports Complex_Main
begin

section \<open>Parameter tensors, the classifier and the loss function\<close>

text \<open>
  A learnable parameter is a tensor of reals together with its gradient buffer. The buffer
  of a freshly created parameter is absent (\<open>None\<close>); back-propagation creates it or adds
  to it. Floating-point numbers are idealised as reals.
\<close>

record ptensor =
  data :: "real list"
  grad :: "real list option"

datatype mode = TrainMode | EvalMode

text \<open>
  The part of the process that an attack reads or changes: the parameters of
  \<open>classifier_net\<close> and its mode, the reference batch held by \<open>loss_fxn\<close> between
  \<open>setup_attack_batch\<close> and \<open>cleanup_attack_batch\<close>, the state of the random
  generator, and the number of calls of \<open>torch.autograd.backward\<close> made so far.
\<close>

record ('x, 'r) world =
  net :: "ptensor list"
  net_mode :: mode
  loss_ref :: "'x list option"
  rng :: 'r
  backprops :: nat

text \<open>
  A perturbation owns its learnable parameters and, once finished, the batch it was built
  for. The class lives in \<open>adversarial_perturbations\<close>, outside the two source files.
\<close>

record 'x perturbation =
  delta :: "ptensor list"
  originals :: "'x list option"

text \<open>
  The collaborators of the attack engine that the source only calls: the threat model
  (initial parameter values of a fresh perturbation, the perturbed batch, the random
  initialisation) and automatic differentiation of
  \<open>loss_fxn.forward(perturbation(examples), labels)\<close>, which yields one gradient per
  perturbation parameter and one per classifier parameter. The loss depends on the
  reference batch, the classifier (mode and parameter values), the perturbation's
  parameter values, the examples and the labels. The update rule of \<open>optim.Adam\<close> for
  one parameter (learning rate, the optimizer's state for that parameter, value, gradient)
  is a collaborator too.
\<close>

record ('x, 'r, 's) collaborators =
  threat_params :: "'x list \<Rightarrow> real list list"
  perturb :: "real list list \<Rightarrow> 'x list \<Rightarrow> 'x list"
  randomize :: "'r \<Rightarrow> real list list \<Rightarrow> real list list \<times> 'r"
  dloss_dpert :: "'x list option \<Rightarrow> mode \<Rightarrow> real list list \<Rightarrow> real list list
                    \<Rightarrow> 'x list \<Rightarrow> nat list \<Rightarrow> real list list"
  dloss_dnet :: "'x list option \<Rightarrow> mode \<Rightarrow> real list list \<Rightarrow> real list list
                    \<Rightarrow> 'x list \<Rightarrow> nat list \<Rightarrow> real list list"
  adam :: "real \<Rightarrow> 's option \<Rightarrow> real list \<Rightarrow> real list \<Rightarrow> real list \<times> 's"

definition param_values :: "ptensor list \<Rightarrow> real list list" where
  "param_values ts = map data ts"

subsection \<open>Back-propagation\<close>

definition accumulate :: "ptensor \<Rightarrow> real list \<Rightarrow> ptensor" where
  "accumulate t g =
     t\<lparr>grad := Some (case grad t of None \<Rightarrow> g | Some g0 \<Rightarrow> map2 (+) g0 g)\<rparr>"

fun accumulate_all :: "ptensor list \<Rightarrow> real list list \<Rightarrow> ptensor list" where
  "accumulate_all [] gs = []"
| "accumulate_all (t # ts) [] = t # ts"
| "accumulate_all (t # ts) (g # gs) = accumulate t g # accumulate_all ts gs"

text \<open>
  \<open>torch.autograd.backward(loss)\<close> for the loss of the perturbed batch: the gradient of
  every leaf is added to its buffer, for the perturbation's parameters and for the
  classifier's. (The gradient of the local \<open>var_examples\<close> is dropped with it.)
\<close>

definition backward ::
  "('x, 'r, 's) collaborators \<Rightarrow> 'x list \<Rightarrow> nat list \<Rightarrow> 'x perturbation \<times> ('x, 'r) world
     \<Rightarrow> 'x perturbation \<times> ('x, 'r) world" where
  "backward c examples labels pw =
     (case pw of (p, w) \<Rightarrow>
        (let gp = dloss_dpert c (loss_ref w) (net_mode w) (param_values (net w)) (param_values (delta p))
                    examples labels;
             gn = dloss_dnet c (loss_ref w) (net_mode w) (param_values (net w)) (param_values (delta p))
                    examples labels
         in (p\<lparr>delta := accumulate_all (delta p) gp\<rparr>,
             w\<lparr>net := accumulate_all (net w) gn, backprops := Suc (backprops w)\<rparr>)))"

subsection \<open>The loss function's reference state\<close>

definition setup_attack_batch :: "'x list \<Rightarrow> ('x, 'r) world \<Rightarrow> ('x, 'r) world" where
  "setup_attack_batch examples w = w\<lparr>loss_ref := Some examples\<rparr>"

definition cleanup_attack_batch :: "('x, 'r) world \<Rightarrow> ('x, 'r) world" where
  "cleanup_attack_batch w = w\<lparr>loss_ref := None\<rparr>"

section \<open>The perturbation's capability set\<close>

text \<open>
  Modelled from the spec: the class \<open>AdversarialPerturbation\<close> is missing from the
  source files. The spec gives its operations: construction by the threat model from a
  reference batch, \<open>update_params(fn: gradient -> delta)\<close> driven by a per-parameter
  transform, \<open>zero_grad()\<close> clearing the gradients, \<open>random_init()\<close> randomising the
  parameters within the feasible region, and \<open>attach_originals(batch)\<close> recording the
  unperturbed source.
\<close>

definition new_perturbation :: "('x, 'r, 's) collaborators \<Rightarrow> 'x list \<Rightarrow> 'x perturbation" where
  "new_perturbation c examples =
     \<lparr>delta = map (\<lambda>d. \<lparr>data = d, grad = None\<rparr>) (threat_params c examples),
      originals = None\<rparr>"

definition zero_tensor_grad :: "ptensor \<Rightarrow> ptensor" where
  "zero_tensor_grad t = t\<lparr>grad := map_option (map (\<lambda>_. 0)) (grad t)\<rparr>"

definition zero_grad :: "'x perturbation \<Rightarrow> 'x perturbation" where
  "zero_grad p = p\<lparr>delta := map zero_tensor_grad (delta p)\<rparr>"

definition update_tensor :: "(real list \<Rightarrow> real list) \<Rightarrow> ptensor \<Rightarrow> ptensor" where
  "update_tensor fn t =
     (case grad t of None \<Rightarrow> t | Some g \<Rightarrow> t\<lparr>data := map2 (+) (data t) (fn g)\<rparr>)"

definition update_params ::
  "(real list \<Rightarrow> real list) \<Rightarrow> 'x perturbation \<Rightarrow> 'x perturbation" where
  "update_params fn p = p\<lparr>delta := map (update_tensor fn) (delta p)\<rparr>"

definition set_values :: "ptensor list \<Rightarrow> real list list \<Rightarrow> ptensor list" where
  "set_values ts ds = map2 (\<lambda>t d. t\<lparr>data := d\<rparr>) ts ds"

definition random_init ::
  "('x, 'r, 's) collaborators \<Rightarrow> 'x perturbation \<times> ('x, 'r) world
     \<Rightarrow> 'x perturbation \<times> ('x, 'r) world" where
  "random_init c pw =
     (case pw of (p, w) \<Rightarrow>
        (case randomize c (rng w) (param_values (delta p)) of (ds, r) \<Rightarrow>
           (p\<lparr>delta := set_values (delta p) ds\<rparr>, w\<lparr>rng := r\<rparr>)))"

definition attach_originals :: "'x list \<Rightarrow> 'x perturbation \<Rightarrow> 'x perturbation" where
  "attach_originals examples p = p\<lparr>originals := Some examples\<rparr>"

text \<open>\<open>perturbation(examples)\<close>: the perturbed batch.\<close>

definition perturbed :: "('x, 'r, 's) collaborators \<Rightarrow> 'x perturbation \<Rightarrow> 'x list \<Rightarrow> 'x list" where
  "perturbed c p examples = perturb c (param_values (delta p)) examples"

section \<open>Optimizers\<close>

text \<open>
  An optimizer is constructed over a list of parameters and keeps references to them.
  A reference names a parameter by its owner: the classifier, or the perturbation under
  construction. \<open>optimizer.step()\<close> visits its parameters in order, skips one whose
  gradient is absent, and replaces the value of the others by the update rule;
  \<open>optimizer.zero_grad()\<close> clears the gradients of its parameters.
\<close>

datatype pref = NetParam nat | PertParam nat

record 's optimizer =
  param_groups :: "(pref \<times> 's option) list"
  lr :: real
  update_rule :: "real \<Rightarrow> 's option \<Rightarrow> real list \<Rightarrow> real list \<Rightarrow> real list \<times> 's"

type_synonym pstore = "ptensor list \<times> ptensor list"

fun lookup_param :: "pstore \<Rightarrow> pref \<Rightarrow> ptensor option" where
  "lookup_param (ns, ps) (NetParam i) = (if i < length ns then Some (ns ! i) else None)"
| "lookup_param (ns, ps) (PertParam i) = (if i < length ps then Some (ps ! i) else None)"

fun modify_param :: "pref \<Rightarrow> (ptensor \<Rightarrow> ptensor) \<Rightarrow> pstore \<Rightarrow> pstore" where
  "modify_param (NetParam i) f (ns, ps) = (ns[i := f (ns ! i)], ps)"
| "modify_param (PertParam i) f (ns, ps) = (ns, ps[i := f (ps ! i)])"

definition classifier_parameters :: "ptensor list \<Rightarrow> pref list" where
  "classifier_parameters ns = map NetParam [0..<length ns]"

definition parameters :: "'x perturbation \<Rightarrow> pref list" where
  "parameters p = map PertParam [0..<length (delta p)]"

definition Adam ::
  "(real \<Rightarrow> 's option \<Rightarrow> real list \<Rightarrow> real list \<Rightarrow> real list \<times> 's) \<Rightarrow> pref list \<Rightarrow> real
     \<Rightarrow> 's optimizer" where
  "Adam rule refs rate =
     \<lparr>param_groups = map (\<lambda>r. (r, None)) refs, lr = rate, update_rule = rule\<rparr>"

definition step_param ::
  "(real \<Rightarrow> 's option \<Rightarrow> real list \<Rightarrow> real list \<Rightarrow> real list \<times> 's) \<Rightarrow> real
     \<Rightarrow> pref \<times> 's option \<Rightarrow> pstore \<Rightarrow> (pref \<times> 's option) \<times> pstore" where
  "step_param rule rate rs st =
     (case rs of (r, s) \<Rightarrow>
        (case lookup_param st r of
           None \<Rightarrow> (rs, st)
         | Some t \<Rightarrow>
             (case grad t of
                None \<Rightarrow> (rs, st)
              | Some g \<Rightarrow>
                  (case rule rate s (data t) g of (d, s') \<Rightarrow>
                     ((r, Some s'), modify_param r (\<lambda>t. t\<lparr>data := d\<rparr>) st)))))"

fun step_groups ::
  "(real \<Rightarrow> 's option \<Rightarrow> real list \<Rightarrow> real list \<Rightarrow> real list \<times> 's) \<Rightarrow> real
     \<Rightarrow> (pref \<times> 's option) list \<Rightarrow> pstore \<Rightarrow> (pref \<times> 's option) list \<times> pstore" where
  "step_groups rule rate [] st = ([], st)"
| "step_groups rule rate (rs # gs) st =
     (case step_param rule rate rs st of (rs', st1) \<Rightarrow>
        (case step_groups rule rate gs st1 of (gs', st2) \<Rightarrow> (rs' # gs', st2)))"

definition optimizer_step :: "'s optimizer \<Rightarrow> pstore \<Rightarrow> 's optimizer \<times> pstore" where
  "optimizer_step opt st =
     (case step_groups (update_rule opt) (lr opt) (param_groups opt) st of (gs, st') \<Rightarrow>
        (opt\<lparr>param_groups := gs\<rparr>, st'))"

definition optimizer_zero_grad :: "'s optimizer \<Rightarrow> pstore \<Rightarrow> pstore" where
  "optimizer_zero_grad opt st =
     fold (\<lambda>r. modify_param r zero_tensor_grad) (map fst (param_groups opt)) st"

section \<open>The attack engine\<close>

text \<open>
  Both attacks share \<open>update_fxn = lambda grad_data: step_size * torch.sign(grad_data)\<close>.
\<close>

definition update_fxn :: "real \<Rightarrow> real list \<Rightarrow> real list" where
  "update_fxn step_size grad_data = map (\<lambda>g. step_size * sgn g) grad_data"

subsection \<open>FGSM.attack\<close>

text \<open>
  The validation printout requested by \<open>verbose\<close> runs a forward pass and writes to the
  console; it changes nothing that the attack returns or leaves behind.
\<close>

definition FGSM_attack ::
  "('x, 'r, 's) collaborators \<Rightarrow> ('x, 'r) world \<Rightarrow> 'x list \<Rightarrow> nat list \<Rightarrow> real \<Rightarrow> bool
     \<Rightarrow> 'x perturbation \<times> ('x, 'r) world" where
  "FGSM_attack c w examples labels step_size verbose =
     (let w1 = w\<lparr>net_mode := EvalMode\<rparr>;
          p0 = new_perturbation c examples;
          w2 = setup_attack_batch examples w1;
          (p1, w3) = backward c examples labels (p0, w2);
          p2 = update_params (update_fxn step_size) p1;
          w4 = cleanup_attack_batch w3;
          p3 = attach_originals examples p2
      in (p3, w4))"

subsection \<open>PGD.attack\<close>

text \<open>One pass of the loop body, on the perturbation, the world and the optimizer.\<close>

definition pgd_iteration ::
  "('x, 'r, 's) collaborators \<Rightarrow> 'x list \<Rightarrow> nat list \<Rightarrow> real \<Rightarrow> bool
     \<Rightarrow> 'x perturbation \<times> ('x, 'r) world \<times> 's optimizer
     \<Rightarrow> 'x perturbation \<times> ('x, 'r) world \<times> 's optimizer" where
  "pgd_iteration c examples labels step_size signed st =
     (case st of (p, w, optimizer) \<Rightarrow>
        (let p1 = zero_grad p;
             (p2, w2) = backward c examples labels (p1, w)
         in if signed then (update_params (update_fxn step_size) p2, w2, optimizer)
            else (case optimizer_step optimizer (net w2, delta p2) of
                    (optimizer', (ns, ps)) \<Rightarrow>
                      (p2\<lparr>delta := ps\<rparr>, w2\<lparr>net := ns\<rparr>, optimizer'))))"

text \<open>\<open>for iter_no in xrange(num_iterations)\<close>: no pass when the count is not positive.\<close>

fun pgd_loop ::
  "('x, 'r, 's) collaborators \<Rightarrow> 'x list \<Rightarrow> nat list \<Rightarrow> real \<Rightarrow> bool \<Rightarrow> nat
     \<Rightarrow> 'x perturbation \<times> ('x, 'r) world \<times> 's optimizer
     \<Rightarrow> 'x perturbation \<times> ('x, 'r) world \<times> 's optimizer" where
  "pgd_loop c examples labels step_size signed 0 st = st"
| "pgd_loop c examples labels step_size signed (Suc n) st =
     pgd_loop c examples labels step_size signed n
       (pgd_iteration c examples labels step_size signed st)"

definition PGD_attack ::
  "('x, 'r, 's) collaborators \<Rightarrow> ('x, 'r) world \<Rightarrow> 'x list \<Rightarrow> nat list \<Rightarrow> real \<Rightarrow> int
     \<Rightarrow> bool \<Rightarrow> bool \<Rightarrow> bool \<Rightarrow> 'x perturbation \<times> ('x, 'r) world" where
  "PGD_attack c w examples labels step_size num_iterations do_random_init signed verbose =
     (let w1 = w\<lparr>net_mode := EvalMode\<rparr>;
          p0 = new_perturbation c examples;
          w2 = setup_attack_batch examples w1;
          (p1, w3) = (if do_random_init then random_init c (p0, w2) else (p0, w2));
          optimizer = Adam (adam c) (parameters p1) 0.0005;
          (p2, w4, optimizer') =
             pgd_loop c examples labels step_size signed (nat num_iterations)
               (p1, w3, optimizer);
          p3 = zero_grad p2;
          w5 = cleanup_attack_batch w4;
          p4 = attach_originals examples p3
      in (p4, w5))"

section \<open>Python errors, tensors on a heap, and actions\<close>

datatype py_error =
  AssertionError | AttributeError | TypeError | ValueError | RuntimeError | ZeroDivisionError

text \<open>
  Data tensors are objects: a function receives references and may read, create or (in
  principle) overwrite tensors. A reference is an index into the heap; creating a tensor
  appends it. A batch of inputs is a float tensor whose rows are the examples; labels and
  index lists are long tensors.
\<close>

datatype 'x tensor = FloatTensor "'x list" | LongTensor "nat list"

text \<open>
  The state of the process seen by the training module: the tensor heap, the parameters
  and mode of \<open>classifier_net\<close>, the upcoming raw draws of the \<open>random\<close> module, and
  the checkpoints written so far (epoch and parameter values).
\<close>

record 'x process =
  heap :: "'x tensor list"
  clf :: "ptensor list"
  clf_mode :: mode
  draws :: "nat list"
  saved :: "(int \<times> real list list) list"

text \<open>
  An action runs on the process and either returns a value or raises; the process state
  it leaves behind is kept in both cases.
\<close>

type_synonym ('a, 'x) action = "'x process \<Rightarrow> (py_error + 'a) \<times> 'x process"

definition succeed :: "'a \<Rightarrow> ('a, 'x) action" where
  "succeed a proc = (Inr a, proc)"

definition raise :: "py_error \<Rightarrow> ('a, 'x) action" where
  "raise e proc = (Inl e, proc)"

definition andthen :: "('a, 'x) action \<Rightarrow> ('a \<Rightarrow> ('b, 'x) action) \<Rightarrow> ('b, 'x) action" where
  "andthen m f proc =
     (case m proc of (Inl e, proc') \<Rightarrow> (Inl e, proc') | (Inr a, proc') \<Rightarrow> f a proc')"

definition alloc :: "'x tensor \<Rightarrow> (nat, 'x) action" where
  "alloc t proc = (Inr (length (heap proc)), proc\<lparr>heap := heap proc @ [t]\<rparr>)"

fun tensor_length :: "'x tensor \<Rightarrow> nat" where
  "tensor_length (FloatTensor xs) = length xs"
| "tensor_length (LongTensor ns) = length ns"

text \<open>\<open>t.shape[0]\<close>, \<open>len(t)\<close>, and \<open>t.numel()\<close> of a one-dimensional tensor.\<close>

definition shape0 :: "nat \<Rightarrow> (nat, 'x) action" where
  "shape0 r proc = (Inr (tensor_length (heap proc ! r)), proc)"

fun select_rows :: "'x tensor \<Rightarrow> nat list \<Rightarrow> 'x tensor" where
  "select_rows (FloatTensor xs) idxs = FloatTensor (map (nth xs) idxs)"
| "select_rows (LongTensor ns) idxs = LongTensor (map (nth ns) idxs)"

text \<open>
  \<open>src.index_select(0, idxs)\<close>: a new tensor holding the selected rows. The index must
  be a long tensor (\<open>None\<close> is a type error) with every entry in range.
\<close>

definition index_select :: "nat \<Rightarrow> nat option \<Rightarrow> (nat, 'x) action" where
  "index_select src idxs proc =
     (case idxs of
        None \<Rightarrow> raise TypeError proc
      | Some i \<Rightarrow>
          (case heap proc ! i of
             FloatTensor _ \<Rightarrow> raise TypeError proc
           | LongTensor ns \<Rightarrow>
               if list_all (\<lambda>n. n < tensor_length (heap proc ! src)) ns
               then alloc (select_rows (heap proc ! src) ns) proc
               else raise RuntimeError proc))"

fun cat_rows :: "'x tensor \<Rightarrow> 'x tensor \<Rightarrow> 'x tensor option" where
  "cat_rows (FloatTensor xs) (FloatTensor ys) = Some (FloatTensor (xs @ ys))"
| "cat_rows (LongTensor ms) (LongTensor ns) = Some (LongTensor (ms @ ns))"
| "cat_rows _ _ = None"

text \<open>
  \<open>torch.cat([a, b], dim=0)\<close>: a new tensor; an element of the list that is \<open>None\<close>,
  or of another tensor type, is a type error.
\<close>

definition torch_cat :: "nat \<Rightarrow> nat option \<Rightarrow> (nat, 'x) action" where
  "torch_cat a b proc =
     (case b of
        None \<Rightarrow> raise TypeError proc
      | Some j \<Rightarrow>
          (case cat_rows (heap proc ! a) (heap proc ! j) of
             None \<Rightarrow> raise TypeError proc
           | Some t \<Rightarrow> alloc t proc))"

text \<open>\<open>Variable(t)\<close> wraps a tensor; \<open>Variable(None)\<close> is a type error.\<close>

definition Variable :: "nat option \<Rightarrow> (nat, 'x) action" where
  "Variable t = (case t of None \<Rightarrow> raise TypeError | Some r \<Rightarrow> succeed r)"

text \<open>The rows of a float tensor and the entries of a long tensor, as the callee reads them.\<close>

fun rows :: "'x tensor \<Rightarrow> 'x list" where
  "rows (FloatTensor xs) = xs"
| "rows (LongTensor ns) = []"

fun entries :: "'x tensor \<Rightarrow> nat list" where
  "entries (LongTensor ns) = ns"
| "entries (FloatTensor xs) = []"

section \<open>Sampling without replacement\<close>

text \<open>
  \<open>random.sample(population, k)\<close> returns \<open>k\<close> elements drawn without replacement and
  raises \<open>ValueError\<close> unless \<open>0 \<le> k \<le> len(population)\<close>. The raw draws of the
  generator are explicit: each draw picks a position among the elements still in the
  pool (a missing draw counts as 0), so every outcome of the library function is the
  outcome for some sequence of draws.
\<close>

fun sample_from :: "'a list \<Rightarrow> nat \<Rightarrow> nat list \<Rightarrow> 'a list \<times> nat list" where
  "sample_from pool 0 rs = ([], rs)"
| "sample_from pool (Suc k) rs =
     (let j = (case rs of [] \<Rightarrow> 0 | r # _ \<Rightarrow> r mod length pool);
          (picked, rest) = sample_from (take j pool @ drop (Suc j) pool) k (tl rs)
      in (pool ! j # picked, rest))"

definition random_sample :: "'a list \<Rightarrow> int \<Rightarrow> ('a list, 'x) action" where
  "random_sample population k proc =
     (if 0 \<le> k \<and> k \<le> int (length population)
      then (case sample_from population (nat k) (draws proc) of
              (picked, rest) \<Rightarrow> (Inr picked, proc\<lparr>draws := rest\<rparr>))
      else raise ValueError proc)"

text \<open>\<open>int(x)\<close> of a float truncates towards zero.\<close>

definition py_int :: "real \<Rightarrow> int" where
  "py_int x = (if 0 \<le> x then \<lfloor>x\<rfloor> else \<lceil>x\<rceil>)"

section \<open>AdversarialAttack: evaluation helpers of the attack object\<close>

text \<open>
  The attack object bound into the training module comes from the module
  \<open>adversarial_attacks\<close>. Of it the model keeps the identity of its classifier, the
  \<open>use_gpu\<close> flag, its \<open>attack\<close> method (with the keyword arguments already
  applied) as an action on references, and the top-1 class that its normalizer and
  classifier assign to an example in the current state.
\<close>

record 'x attack_obj =
  obj_net :: nat
  use_gpu :: bool
  engine :: "nat \<Rightarrow> nat \<Rightarrow> (nat, 'x) action"
  predictor :: "'x process \<Rightarrow> 'x \<Rightarrow> nat"

text \<open>
  Modelled from the spec: \<open>utils.accuracy_int\<close> and \<open>utils.accuracy\<close> are missing
  from the source files. The spec gives \<open>accuracy_int(...) -> integer correct count\<close>
  and \<open>accuracy(logits, labels, topk) -> list of percentages\<close>.
\<close>

definition accuracy_int :: "nat list \<Rightarrow> nat list \<Rightarrow> nat" where
  "accuracy_int predictions labels =
     length (filter (\<lambda>(a, b). a = b) (zip predictions labels))"

definition accuracy :: "nat list \<Rightarrow> nat list \<Rightarrow> (real, 'x) action" where
  "accuracy predictions labels =
     (if length labels = 0 then raise ZeroDivisionError
      else succeed (100 * real (accuracy_int predictions labels) / real (length labels)))"

definition predictions :: "'x attack_obj \<Rightarrow> nat \<Rightarrow> (nat list, 'x) action" where
  "predictions obj examples proc =
     (Inr (map (predictor obj proc) (rows (heap proc ! examples))), proc)"

definition read_labels :: "nat \<Rightarrow> (nat list, 'x) action" where
  "read_labels labels proc = (Inr (entries (heap proc ! labels)), proc)"

definition obj_eval :: "'x attack_obj \<Rightarrow> nat \<Rightarrow> nat \<Rightarrow> nat \<Rightarrow> (real \<times> real, 'x) action" where
  "obj_eval obj ground_examples adversarials labels =
     andthen (predictions obj ground_examples) (\<lambda>ground_output.
     andthen (predictions obj adversarials) (\<lambda>adv_output.
     andthen (read_labels labels) (\<lambda>ys.
     andthen (accuracy ground_output ys) (\<lambda>start_prec.
     andthen (accuracy adv_output ys) (\<lambda>adv_prec.
       succeed (start_prec, adv_prec))))))"

definition obj_eval_attack_only :: "'x attack_obj \<Rightarrow> nat \<Rightarrow> nat \<Rightarrow> (nat, 'x) action" where
  "obj_eval_attack_only obj adversarials labels =
     andthen (predictions obj adversarials) (\<lambda>adv_output.
     andthen (read_labels labels) (\<lambda>ys.
       succeed (accuracy_int adv_output ys)))"

section \<open>AdversarialAttackParameters\<close>

text \<open>
  The wrapper binds an attack object to the proportion of each minibatch to attack and to
  the output filter chosen by its constructor for the class of the attack object.
\<close>

record 'x attack_parameters =
  adv_attack_obj :: "'x attack_obj"
  proportion_attacked :: real
  output_filter :: "nat \<Rightarrow> (nat, 'x) action"

definition set_gpu :: "'x attack_parameters \<Rightarrow> bool \<Rightarrow> 'x attack_parameters" where
  "set_gpu ap gpu = ap\<lparr>adv_attack_obj := (adv_attack_obj ap)\<lparr>use_gpu := gpu\<rparr>\<rparr>"

text \<open>
  The selection of \<open>attack\<close>:
  \<open>sorted(random.sample(range(num_elements), int(self.proportion_attacked * num_elements)))\<close>.
\<close>

definition select_idxs :: "real \<Rightarrow> nat \<Rightarrow> (nat list, 'x) action" where
  "select_idxs proportion num_elements =
     andthen (random_sample [0..<num_elements] (py_int (proportion * real num_elements)))
       (\<lambda>sampled. succeed (sort sampled))"

definition attack ::
  "'x attack_parameters \<Rightarrow> nat \<Rightarrow> nat \<Rightarrow> (nat option \<times> nat option \<times> nat option, 'x) action" where
  "attack ap inputs labels =
     andthen (shape0 inputs) (\<lambda>num_elements.
     andthen (select_idxs (proportion_attacked ap) num_elements) (\<lambda>idxs.
     andthen (alloc (LongTensor idxs)) (\<lambda>selected_idxs.
     andthen (shape0 selected_idxs) (\<lambda>numel.
       if numel = 0 then succeed (None, None, None)
       else
         andthen (index_select inputs (Some selected_idxs)) (\<lambda>adv_inputs.
         andthen (index_select labels (Some selected_idxs)) (\<lambda>pre_adv_labels.
         andthen (engine (adv_attack_obj ap) adv_inputs pre_adv_labels) (\<lambda>raw_examples.
         andthen (output_filter ap raw_examples) (\<lambda>adv_examples.
           succeed (Some adv_examples, Some pre_adv_labels, Some selected_idxs)))))))))"

text \<open>\<open>AdversarialAttackParameters.eval\<close>; the adversarial batch is passed on as given.\<close>

definition wrapper_eval ::
  "'x attack_parameters \<Rightarrow> nat \<Rightarrow> nat option \<Rightarrow> nat \<Rightarrow> nat option \<Rightarrow> (real \<times> real, 'x) action" where
  "wrapper_eval ap ground_inputs adv_inputs labels idxs =
     andthen (index_select ground_inputs idxs) (\<lambda>selected_grounds.
     andthen (index_select labels idxs) (\<lambda>selected_labels.
     andthen (Variable adv_inputs) (\<lambda>adversarials.
       obj_eval (adv_attack_obj ap) selected_grounds adversarials selected_labels)))"

definition eval_attack_only :: "'x attack_parameters \<Rightarrow> nat \<Rightarrow> nat \<Rightarrow> (nat, 'x) action" where
  "eval_attack_only ap adv_inputs labels =
     obj_eval_attack_only (adv_attack_obj ap) adv_inputs labels"

section \<open>AdversarialTraining\<close>

record adversarial_training =
  classifier_net :: nat
  experiment_name :: string
  architecture_name :: string
  verbosity_level :: "int option"
  verbosity_minibatch :: "int option"
  verbosity_adv :: "int option"
  verbosity_epoch :: "int option"

definition assert :: "bool \<Rightarrow> (unit, 'x) action" where
  "assert b = (if b then succeed () else raise AssertionError)"

definition set_verbosity ::
  "adversarial_training \<Rightarrow> string option \<Rightarrow> (adversarial_training, 'x) action" where
  "set_verbosity self verbosity =
     andthen (assert (verbosity \<in> {Some ''low'', Some ''medium'', Some ''high'', Some ''snoop''}))
       (\<lambda>_. succeed (self\<lparr>
          verbosity_level :=
            (if verbosity = Some ''low'' then Some 0
             else if verbosity = Some ''medium'' then Some 1
             else if verbosity = Some ''high'' then Some 2 else Some 420),
          verbosity_minibatch :=
            (if verbosity = Some ''medium'' then Some 2000
             else if verbosity = Some ''high'' then Some 100
             else if verbosity = Some ''snoop'' then Some 1 else None),
          verbosity_adv :=
            (if verbosity = Some ''medium'' then Some 2000
             else if verbosity = Some ''high'' then Some 100
             else if verbosity = Some ''snoop'' then Some 1 else None),
          verbosity_epoch :=
            (if verbosity = Some ''low'' then Some 100
             else if verbosity = Some ''medium'' then Some 10 else Some 1)\<rparr>))"

text \<open>
  \<open>level >= 1 and counter % cadence == cadence - 1\<close>, as Python 2 evaluates it: \<open>None\<close>
  compares below every number, \<open>and\<close> does not evaluate its right operand when the left
  one is false, and \<open>%\<close> raises on \<open>None\<close> and on zero.
\<close>

definition at_cadence :: "int option \<Rightarrow> int \<Rightarrow> int option \<Rightarrow> (bool, 'x) action" where
  "at_cadence level counter cadence =
     (case level of
        None \<Rightarrow> succeed False
      | Some l \<Rightarrow>
          if l \<ge> 1 then
            (case cadence of
               None \<Rightarrow> raise TypeError
             | Some k \<Rightarrow> if k = 0 then raise ZeroDivisionError
                         else succeed (counter mod k = k - 1))
          else succeed False)"

definition attack_subroutine ::
  "adversarial_training \<Rightarrow> 'x attack_parameters option \<Rightarrow> nat \<Rightarrow> nat \<Rightarrow> int \<Rightarrow> int
     \<Rightarrow> (nat \<times> nat, 'x) action" where
  "attack_subroutine self attack_params inputs labels epoch_num minibatch_num =
     (case attack_params of
        None \<Rightarrow> succeed (inputs, labels)
      | Some ap \<Rightarrow>
          andthen (attack ap inputs labels) (\<lambda>(adv_inputs, adv_labels, adv_idxs).
          andthen (at_cadence (verbosity_level self) minibatch_num (verbosity_adv self)) (\<lambda>printout.
          andthen (if printout
                   then andthen (wrapper_eval ap inputs adv_inputs labels adv_idxs) (\<lambda>_. succeed ())
                   else succeed ()) (\<lambda>_.
          andthen (torch_cat inputs adv_inputs) (\<lambda>inputs'.
          andthen (torch_cat labels adv_labels) (\<lambda>labels'.
            succeed (inputs', labels')))))))"

subsection \<open>AdversarialTraining.train\<close>

text \<open>
  What \<open>train\<close> takes from its surroundings: whether CUDA is available, the update rule
  of \<open>optim.Adam\<close>, and automatic differentiation of
  \<open>loss_fxn.forward(classifier_net.forward(normalizer(inputs)), labels)\<close> with respect to
  each classifier parameter.
\<close>

record ('x, 's) platform =
  cuda_is_available :: bool
  adam_rule :: "real \<Rightarrow> 's option \<Rightarrow> real list \<Rightarrow> real list \<Rightarrow> real list \<times> 's"
  loss_gradient :: "mode \<Rightarrow> real list list \<Rightarrow> 'x list \<Rightarrow> nat list \<Rightarrow> real list list"

definition set_mode :: "mode \<Rightarrow> (unit, 'x) action" where
  "set_mode m proc = (Inr (), proc\<lparr>clf_mode := m\<rparr>)"

text \<open>\<open>t.cuda()\<close> copies a tensor to the device: a new tensor with the same content.\<close>

definition cuda :: "nat \<Rightarrow> (nat, 'x) action" where
  "cuda r proc = alloc (heap proc ! r) proc"

definition on_device :: "bool \<Rightarrow> nat \<Rightarrow> (nat, 'x) action" where
  "on_device gpu r = (if gpu then cuda r else succeed r)"

text \<open>
  \<open>attack_parameters.set_gpu(use_gpu)\<close> on the argument as given: \<open>None\<close> has no such
  attribute.
\<close>

definition call_set_gpu ::
  "'x attack_parameters option \<Rightarrow> bool \<Rightarrow> ('x attack_parameters option, 'x) action" where
  "call_set_gpu attack_params gpu =
     (case attack_params of
        None \<Rightarrow> raise AttributeError
      | Some ap \<Rightarrow> succeed (Some (set_gpu ap gpu)))"

definition classifier_params :: "(pref list, 'x) action" where
  "classifier_params proc = (Inr (classifier_parameters (clf proc)), proc)"

text \<open>
  The optimizer acts on the parameters it references. No perturbation is in scope of the
  training loop: the bound attack returns a finished batch.
\<close>

definition zero_grad_action :: "'s optimizer \<Rightarrow> (unit, 'x) action" where
  "zero_grad_action opt proc =
     (Inr (), proc\<lparr>clf := fst (optimizer_zero_grad opt (clf proc, []))\<rparr>)"

definition step_action :: "'s optimizer \<Rightarrow> ('s optimizer, 'x) action" where
  "step_action opt proc =
     (case optimizer_step opt (clf proc, []) of
        (opt', st) \<Rightarrow> (Inr opt', proc\<lparr>clf := fst st\<rparr>))"

text \<open>The forward pass, the loss and \<open>loss.backward()\<close> of the supervised step.\<close>

definition loss_backward :: "('x, 's) platform \<Rightarrow> nat \<Rightarrow> nat \<Rightarrow> (unit, 'x) action" where
  "loss_backward pf inputs labels proc =
     (Inr (), proc\<lparr>clf := accumulate_all (clf proc)
        (loss_gradient pf (clf_mode proc) (param_values (clf proc))
           (rows (heap proc ! inputs)) (entries (heap proc ! labels)))\<rparr>)"

text \<open>One pass of the inner loop body; console output is not part of the state.\<close>

definition train_minibatch ::
  "('x, 's) platform \<Rightarrow> adversarial_training \<Rightarrow> 'x attack_parameters option \<Rightarrow> bool \<Rightarrow> int
     \<Rightarrow> int \<Rightarrow> 'x list \<times> nat list \<Rightarrow> 's optimizer \<Rightarrow> ('s optimizer, 'x) action" where
  "train_minibatch pf self attack_params gpu epoch i batch optimizer =
     andthen (alloc (FloatTensor (fst batch))) (\<lambda>inputs.
     andthen (alloc (LongTensor (snd batch))) (\<lambda>labels.
     andthen (on_device gpu inputs) (\<lambda>inputs.
     andthen (on_device gpu labels) (\<lambda>labels.
     andthen (attack_subroutine self attack_params inputs labels epoch i) (\<lambda>(inputs, labels).
     andthen (set_mode TrainMode) (\<lambda>_.
     andthen (zero_grad_action optimizer) (\<lambda>_.
     andthen (loss_backward pf inputs labels) (\<lambda>_.
     andthen (step_action optimizer) (\<lambda>optimizer.
     andthen (at_cadence (verbosity_level self) i (verbosity_minibatch self)) (\<lambda>_.
       succeed optimizer))))))))))"

fun train_minibatches ::
  "('x, 's) platform \<Rightarrow> adversarial_training \<Rightarrow> 'x attack_parameters option \<Rightarrow> bool \<Rightarrow> int
     \<Rightarrow> int \<Rightarrow> ('x list \<times> nat list) list \<Rightarrow> 's optimizer \<Rightarrow> ('s optimizer, 'x) action" where
  "train_minibatches pf self attack_params gpu epoch i [] optimizer = succeed optimizer"
| "train_minibatches pf self attack_params gpu epoch i (batch # rest) optimizer =
     andthen (train_minibatch pf self attack_params gpu epoch i batch optimizer)
       (train_minibatches pf self attack_params gpu epoch (i + 1) rest)"

text \<open>\<open>checkpoints.save_state_dict\<close>: the sink records the epoch and the classifier state.\<close>

definition save_state_dict :: "int \<Rightarrow> (unit, 'x) action" where
  "save_state_dict epoch proc =
     (Inr (), proc\<lparr>saved := saved proc @ [(epoch, param_values (clf proc))]\<rparr>)"

definition end_of_epoch :: "adversarial_training \<Rightarrow> int \<Rightarrow> (unit, 'x) action" where
  "end_of_epoch self epoch =
     (if epoch > 0 then
        (case verbosity_epoch self of
           None \<Rightarrow> raise TypeError
         | Some k \<Rightarrow> if k = 0 then raise ZeroDivisionError
                     else if epoch mod k = 0 then save_state_dict epoch else succeed ())
      else succeed ())"

fun train_epochs ::
  "('x, 's) platform \<Rightarrow> adversarial_training \<Rightarrow> 'x attack_parameters option \<Rightarrow> bool
     \<Rightarrow> ('x list \<times> nat list) list \<Rightarrow> nat list \<Rightarrow> 's optimizer \<Rightarrow> ('s optimizer, 'x) action" where
  "train_epochs pf self attack_params gpu data_loader [] optimizer = succeed optimizer"
| "train_epochs pf self attack_params gpu data_loader (epoch # epochs) optimizer =
     andthen (train_minibatches pf self attack_params gpu (int epoch) 0 data_loader optimizer)
       (\<lambda>optimizer.
     andthen (end_of_epoch self (int epoch)) (\<lambda>_.
       train_epochs pf self attack_params gpu data_loader epochs optimizer))"

text \<open>
  \<open>train\<close>, statement by statement. The two \<open>isinstance\<close> assertions hold by typing;
  moving the classifier to the device, \<open>normalizer.differentiable_call()\<close> and the
  console output change nothing in the state kept here. The line
  \<open>attack_parameters.set_gpu(use_gpu)\<close> stands after the block guarded by
  \<open>if attack_parameters is not None\<close>, not inside it.
\<close>

definition train ::
  "('x, 's) platform \<Rightarrow> adversarial_training \<Rightarrow> ('x list \<times> nat list) list \<Rightarrow> int
     \<Rightarrow> 's optimizer option \<Rightarrow> 'x attack_parameters option \<Rightarrow> bool \<Rightarrow> string option
     \<Rightarrow> (unit, 'x) action" where
  "train pf self data_loader num_epochs optimizer attack_params gpu verbosity =
     andthen (set_mode TrainMode) (\<lambda>_.
     andthen (case attack_params of
                None \<Rightarrow> succeed ()
              | Some ap \<Rightarrow> assert (obj_net (adv_attack_obj ap) = classifier_net self)) (\<lambda>_.
     andthen (assert (\<not> (gpu \<and> \<not> cuda_is_available pf))) (\<lambda>_.
     andthen (call_set_gpu attack_params gpu) (\<lambda>attack_params.
     andthen (assert (verbosity \<in> {Some ''low'', Some ''medium'', Some ''high'', Some ''snoop'',
                                   None})) (\<lambda>_.
     andthen (set_verbosity self verbosity) (\<lambda>self.
     andthen classifier_params (\<lambda>params.
     andthen (succeed (case optimizer of
                         Some given \<Rightarrow> given
                       | None \<Rightarrow> Adam (adam_rule pf) params 0.001)) (\<lambda>optimizer.
     andthen (train_epochs pf self attack_params gpu data_loader [0..<nat num_epochs] optimizer)
       (\<lambda>_. succeed ())))))))))"

section \<open>AdversarialEvaluation\<close>

text \<open>
  Modelled from the spec: \<open>utils.AverageMeter\<close> is missing from the source files. The
  spec's RunningAverage accumulates a weighted mean over observations \<open>(value, count)\<close>:
  the average is the sum of \<open>value \<times> count\<close> divided by the sum of the counts.
\<close>

record average_meter =
  meter_sum :: real
  meter_count :: int
  meter_avg :: real

definition AverageMeter :: average_meter where
  "AverageMeter = \<lparr>meter_sum = 0, meter_count = 0, meter_avg = 0\<rparr>"

definition meter_update :: "average_meter \<Rightarrow> real \<Rightarrow> int \<Rightarrow> (average_meter, 'x) action" where
  "meter_update m val n =
     (if meter_count m + n = 0 then raise ZeroDivisionError
      else succeed \<lparr>meter_sum = meter_sum m + val * real_of_int n,
                    meter_count = meter_count m + n,
                    meter_avg = (meter_sum m + val * real_of_int n) / real_of_int (meter_count m + n)\<rparr>)"

text \<open>\<open>count / minibatch\<close> with \<open>minibatch = float(len(inputs))\<close>.\<close>

definition float_div :: "nat \<Rightarrow> real \<Rightarrow> (real, 'x) action" where
  "float_div a b = (if b = 0 then raise ZeroDivisionError else succeed (real a / b))"

text \<open>\<open>validation_results[name].update(val, n)\<close>; a missing key is not reached.\<close>

definition update_result ::
  "(string \<Rightarrow> average_meter option) \<Rightarrow> string \<Rightarrow> real \<Rightarrow> int
     \<Rightarrow> (string \<Rightarrow> average_meter option, 'x) action" where
  "update_result results name val n =
     (case results name of
        None \<Rightarrow> succeed results
      | Some m \<Rightarrow> andthen (meter_update m val n) (\<lambda>m'. succeed (results(name \<mapsto> m'))))"

text \<open>The evaluation object's own classifier and normalizer give the ground predictions.\<close>

definition ground_predictions ::
  "('x process \<Rightarrow> 'x \<Rightarrow> nat) \<Rightarrow> nat \<Rightarrow> (nat list, 'x) action" where
  "ground_predictions classify inputs proc =
     (Inr (map (classify proc) (rows (heap proc ! inputs))), proc)"

text \<open>One attack of the ensemble on one minibatch.\<close>

definition evaluate_attack ::
  "nat \<Rightarrow> nat \<Rightarrow> real \<Rightarrow> string \<times> 'x attack_parameters \<Rightarrow> (string \<Rightarrow> average_meter option)
     \<Rightarrow> (string \<Rightarrow> average_meter option, 'x) action" where
  "evaluate_attack inputs labels minibatch named results =
     (case named of (attack_name, attack_params) \<Rightarrow>
        andthen (attack attack_params inputs labels) (\<lambda>(adv, pre_labels, idxs).
        andthen (Variable adv) (\<lambda>attack_examples.
        andthen (Variable pre_labels) (\<lambda>pre_adv_labels.
        andthen (eval_attack_only attack_params attack_examples pre_adv_labels)
          (\<lambda>attack_accuracy_int.
        andthen (float_div attack_accuracy_int minibatch) (\<lambda>val.
          update_result results attack_name val (py_int minibatch)))))))"

fun evaluate_attacks ::
  "nat \<Rightarrow> nat \<Rightarrow> real \<Rightarrow> (string \<times> 'x attack_parameters) list
     \<Rightarrow> (string \<Rightarrow> average_meter option) \<Rightarrow> (string \<Rightarrow> average_meter option, 'x) action" where
  "evaluate_attacks inputs labels minibatch [] results = succeed results"
| "evaluate_attacks inputs labels minibatch (named # rest) results =
     andthen (evaluate_attack inputs labels minibatch named results)
       (evaluate_attacks inputs labels minibatch rest)"

definition evaluate_minibatch ::
  "('x process \<Rightarrow> 'x \<Rightarrow> nat) \<Rightarrow> (string \<times> 'x attack_parameters) list \<Rightarrow> bool
     \<Rightarrow> 'x list \<times> nat list \<Rightarrow> (string \<Rightarrow> average_meter option)
     \<Rightarrow> (string \<Rightarrow> average_meter option, 'x) action" where
  "evaluate_minibatch classify attack_ensemble gpu batch results =
     andthen (alloc (FloatTensor (fst batch))) (\<lambda>inputs.
     andthen (alloc (LongTensor (snd batch))) (\<lambda>labels.
     andthen (on_device gpu inputs) (\<lambda>inputs.
     andthen (on_device gpu labels) (\<lambda>labels.
     andthen (shape0 inputs) (\<lambda>len_inputs.
     andthen (ground_predictions classify inputs) (\<lambda>ground_output.
     andthen (read_labels labels) (\<lambda>ys.
     andthen (float_div (accuracy_int ground_output ys) (real len_inputs)) (\<lambda>val.
     andthen (update_result results ''ground'' val (py_int (real len_inputs))) (\<lambda>results.
       evaluate_attacks inputs labels (real len_inputs) attack_ensemble results)))))))))"

text \<open>
  The loop over the data loader; it stops at the first minibatch whose number reaches
  \<open>num_minibatches\<close>.
\<close>

fun evaluate_loop ::
  "('x process \<Rightarrow> 'x \<Rightarrow> nat) \<Rightarrow> (string \<times> 'x attack_parameters) list \<Rightarrow> bool \<Rightarrow> int option
     \<Rightarrow> int \<Rightarrow> ('x list \<times> nat list) list \<Rightarrow> (string \<Rightarrow> average_meter option)
     \<Rightarrow> (string \<Rightarrow> average_meter option, 'x) action" where
  "evaluate_loop classify attack_ensemble gpu num_minibatches i [] results = succeed results"
| "evaluate_loop classify attack_ensemble gpu num_minibatches i (batch # rest) results =
     (if (case num_minibatches of None \<Rightarrow> False | Some n \<Rightarrow> i \<ge> n) then succeed results
      else andthen (evaluate_minibatch classify attack_ensemble gpu batch results)
             (evaluate_loop classify attack_ensemble gpu num_minibatches (i + 1) rest))"

definition new_results ::
  "(string \<times> 'x attack_parameters) list \<Rightarrow> string \<Rightarrow> average_meter option" where
  "new_results attack_ensemble =
     (\<lambda>k. if k \<in> set (map fst attack_ensemble @ [''ground'']) then Some AverageMeter else None)"

definition evaluate ::
  "('x, 's) platform \<Rightarrow> ('x process \<Rightarrow> 'x \<Rightarrow> nat) \<Rightarrow> ('x list \<times> nat list) list
     \<Rightarrow> (string \<times> 'x attack_parameters) list \<Rightarrow> bool \<Rightarrow> int option
     \<Rightarrow> (string \<Rightarrow> real option, 'x) action" where
  "evaluate pf classify data_loader attack_ensemble gpu num_minibatches =
     andthen (set_mode EvalMode) (\<lambda>_.
     andthen (assert (''ground'' \<notin> set (map fst attack_ensemble))) (\<lambda>_.
     andthen (succeed (new_results attack_ensemble)) (\<lambda>validation_results.
     andthen (assert (\<not> (gpu \<and> \<not> cuda_is_available pf))) (\<lambda>_.
     andthen (succeed (map (\<lambda>(k, ap). (k, set_gpu ap gpu)) attack_ensemble)) (\<lambda>attack_ensemble.
     andthen (evaluate_loop classify attack_ensemble gpu num_minibatches 0 data_loader
                validation_results) (\<lambda>validation_results.
       succeed (\<lambda>k. map_option meter_avg (validation_results k))))))))"

section \<open>Notions used in the statements\<close>

fun is_pert :: "pref \<Rightarrow> bool" where
  "is_pert (PertParam i) = True"
| "is_pert (NetParam i) = False"

fun is_net :: "pref \<Rightarrow> bool" where
  "is_net (NetParam i) = True"
| "is_net (PertParam i) = False"

text \<open>
  Two worlds that an attack cannot tell apart: the same reference batch, the same
  classifier mode and the same classifier parameter values.
\<close>

definition same_view :: "('x, 'r) world \<Rightarrow> ('x, 'r) world \<Rightarrow> bool" where
  "same_view w w' \<longleftrightarrow>
     loss_ref w = loss_ref w' \<and> net_mode w = net_mode w'
       \<and> param_values (net w) = param_values (net w')"

text \<open>
  Every tensor of the first state is still in the second, at the same reference and with
  the same content.
\<close>

definition preserves_heap :: "'x process \<Rightarrow> 'x process \<Rightarrow> bool" where
  "preserves_heap proc proc' \<longleftrightarrow>
     length (heap proc) \<le> length (heap proc')
       \<and> (\<forall>r < length (heap proc). heap proc' ! r = heap proc ! r)"

text \<open>
  What is assumed of the code behind the bound attack: its \<open>attack\<close> method overwrites
  no tensor but the two it is given, and the output filter overwrites no tensor at all.
  Both may create tensors.
\<close>

definition engine_frame :: "(nat \<Rightarrow> nat \<Rightarrow> (nat, 'x) action) \<Rightarrow> bool" where
  "engine_frame f \<longleftrightarrow>
     (\<forall>a b proc.
        length (heap proc) \<le> length (heap (snd (f a b proc)))
          \<and> (\<forall>r < length (heap proc).
                r \<noteq> a \<longrightarrow> r \<noteq> b \<longrightarrow> heap (snd (f a b proc)) ! r = heap proc ! r))"

definition filter_frame :: "(nat \<Rightarrow> (nat, 'x) action) \<Rightarrow> bool" where
  "filter_frame f \<longleftrightarrow> (\<forall>a proc. preserves_heap proc (snd (f a proc)))"

text \<open>
  An action started with at least \<open>n\<close> tensors on the heap leaves the first \<open>n\<close> as they
  are, and a value it returns satisfies \<open>Q\<close>.
\<close>

definition framed :: "nat \<Rightarrow> ('a, 'x) action \<Rightarrow> ('a \<Rightarrow> bool) \<Rightarrow> bool" where
  "framed n m Q \<longleftrightarrow>
     (\<forall>proc. n \<le> length (heap proc) \<longrightarrow>
        (case m proc of
           (r, proc') \<Rightarrow>
             n \<le> length (heap proc') \<and> take n (heap proc') = take n (heap proc)
               \<and> (case r of Inl e \<Rightarrow> True | Inr a \<Rightarrow> Q a)))"

section \<open>Concrete instances\<close>

definition example_collaborators :: "(nat, nat, unit) collaborators" where
  "example_collaborators =
     \<lparr>threat_params = (\<lambda>xs. [[0, 0]]),
      perturb = (\<lambda>ds xs. xs),
      randomize = (\<lambda>r ds. (ds, Suc r)),
      dloss_dpert = (\<lambda>ref m ns ds xs ys. [[1, - 2]]),
      dloss_dnet = (\<lambda>ref m ns ds xs ys. [[1]]),
      adam = (\<lambda>rate s d g. (map2 (\<lambda>a b. a - rate * b) d g, ()))\<rparr>"

definition example_world :: "(nat, nat) world" where
  "example_world =
     \<lparr>net = [\<lparr>data = [3], grad = None\<rparr>], net_mode = TrainMode, loss_ref = None, rng = 0,
      backprops = 0\<rparr>"



text \<open>
  An attack object whose attack returns the batch it is given, bound into a wrapper that
  attacks half of each minibatch; the classifier maps an example to itself, so an example
  is classified correctly when it equals its label.
\<close>

definition example_attack_obj :: "nat attack_obj" where
  "example_attack_obj =
     \<lparr>obj_net = 0, use_gpu = False, engine = (\<lambda>a b. succeed a), predictor = (\<lambda>proc x. x)\<rparr>"

definition example_attack_parameters :: "nat attack_parameters" where
  "example_attack_parameters =
     \<lparr>adv_attack_obj = example_attack_obj, proportion_attacked = 1 / 2,
      output_filter = succeed\<rparr>"

definition example_process :: "nat process" where
  "example_process =
     \<lparr>heap = [FloatTensor [7], LongTensor [7]], clf = [\<lparr>data = [3], grad = None\<rparr>],
      clf_mode = EvalMode, draws = [], saved = []\<rparr>"

text \<open>
  An attack that overwrites the batch it is given in place (it adds one to every example),
  and a process holding a minibatch of two examples.
\<close>

definition inplace_attack_obj :: "nat attack_obj" where
  "inplace_attack_obj =
     \<lparr>obj_net = 0, use_gpu = False,
      engine = (\<lambda>a b proc.
         (Inr a, proc\<lparr>heap := (heap proc)[a := FloatTensor (map Suc (rows (heap proc ! a)))]\<rparr>)),
      predictor = (\<lambda>proc x. x)\<rparr>"

definition inplace_attack_parameters :: "nat attack_parameters" where
  "inplace_attack_parameters =
     \<lparr>adv_attack_obj = inplace_attack_obj, proportion_attacked = 1 / 2,
      output_filter = succeed\<rparr>"

definition two_example_process :: "nat process" where
  "two_example_process =
     \<lparr>heap = [FloatTensor [7, 8], LongTensor [7, 8]], clf = [\<lparr>data = [3], grad = None\<rparr>],
      clf_mode = EvalMode, draws = [1], saved = []\<rparr>"

text \<open>A training object as \<open>set_verbosity('low')\<close> leaves it.\<close>

definition example_trainer :: adversarial_training where
  "example_trainer =
     \<lparr>classifier_net = 0, experiment_name = ''experiment'', architecture_name = ''net'',
      verbosity_level = Some 0, verbosity_minibatch = None, verbosity_adv = None,
      verbosity_epoch = Some 100\<rparr>"

definition example_platform :: "(nat, unit) platform" where
  "example_platform =
     \<lparr>cuda_is_available = False,
      adam_rule = (\<lambda>rate s d g. (map2 (\<lambda>a b. a - rate * b) d g, ())),
      loss_gradient = (\<lambda>m ns xs ys. [[1]])\<rparr>"

section \<open>Facts about parameter tensors\<close>

lemma param_values_accumulate_all [simp]:
  "param_values (accumulate_all ts gs) = param_values ts"
  by (induction ts gs rule: accumulate_all.induct) (simp_all add: param_values_def accumulate_def)

lemma length_accumulate_all [simp]: "length (accumulate_all ts gs) = length ts"
  by (induction ts gs rule: accumulate_all.induct) simp_all

lemma zero_tensor_grad_fresh [simp]:
  "zero_tensor_grad \<lparr>data = d, grad = None\<rparr> = \<lparr>data = d, grad = None\<rparr>"
  by (simp add: zero_tensor_grad_def)

lemma zero_grad_new_perturbation [simp]:
  "zero_grad (new_perturbation c examples) = new_perturbation c examples"
  by (simp add: zero_grad_def new_perturbation_def)

lemma zero_tensor_grad_data [simp]: "data (zero_tensor_grad t) = data t"
  by (simp add: zero_tensor_grad_def)

lemma param_values_zero_grad [simp]:
  "param_values (delta (zero_grad p)) = param_values (delta p)"
  by (simp add: zero_grad_def param_values_def)

lemma step_fresh_values:
  "length gs = length ds \<Longrightarrow>
   param_values (map (update_tensor fn)
       (accumulate_all (map (\<lambda>d. \<lparr>data = d, grad = None\<rparr>) ds) gs))
     = map2 (\<lambda>d g. map2 (+) d (fn g)) ds gs"
proof (induction ds arbitrary: gs)
  case Nil
  then show ?case by (simp add: param_values_def)
next
  case (Cons d ds)
  then obtain g gs' where "gs = g # gs'" by (cases gs) auto
  with Cons show ?case
    by (simp add: param_values_def update_tensor_def accumulate_def)
qed

lemma step_fresh_grads:
  "length gs = length ds \<Longrightarrow>
   map grad (map (update_tensor fn)
       (accumulate_all (map (\<lambda>d. \<lparr>data = d, grad = None\<rparr>) ds) gs))
     = map Some gs"
proof (induction ds arbitrary: gs)
  case Nil
  then show ?case by simp
next
  case (Cons d ds)
  then obtain g gs' where "gs = g # gs'" by (cases gs) auto
  with Cons show ?case
    by (simp add: update_tensor_def accumulate_def)
qed

lemma map2_sign_step: "map2 (+) d (update_fxn s g) = map2 (\<lambda>a b. a + s * sgn b) d g"
  by (simp add: update_fxn_def zip_map2 comp_def case_prod_unfold)

lemma FGSM_attack_unfold:
  "FGSM_attack c w examples labels step_size verbose =
     (\<lparr>delta = map (update_tensor (update_fxn step_size))
          (accumulate_all (map (\<lambda>d. \<lparr>data = d, grad = None\<rparr>) (threat_params c examples))
             (dloss_dpert c (Some examples) EvalMode (param_values (net w))
                (threat_params c examples) examples labels)),
       originals = Some examples\<rparr>,
      w\<lparr>net_mode := EvalMode, loss_ref := None,
        net := accumulate_all (net w)
           (dloss_dnet c (Some examples) EvalMode (param_values (net w))
                (threat_params c examples) examples labels),
        backprops := Suc (backprops w)\<rparr>)"
  by (simp add: FGSM_attack_def backward_def setup_attack_batch_def cleanup_attack_batch_def
      attach_originals_def update_params_def new_perturbation_def Let_def param_values_def comp_def)

lemma PGD_one_signed_step:
  "PGD_attack c w x y step 1 False True verbose =
     (case FGSM_attack c w x y step verbose' of (q, w') \<Rightarrow> (zero_grad q, w'))"
  by (simp add: PGD_attack_def FGSM_attack_def pgd_iteration_def Let_def split: prod.splits)
     (simp add: zero_grad_def attach_originals_def update_params_def)

text \<open>
  C4: the multi-step attack with \<open>signed=True\<close>, one iteration and no random
  initialisation returns the perturbation of the single-step attack with its gradients
  cleared: the same parameter values, the same perturbed batch, the same originals, and
  it leaves the same world behind.
\<close>

theorem PGD_single_signed_step_is_FGSM:
  "fst (PGD_attack c w examples labels step_size 1 False True verbose)
     = zero_grad (fst (FGSM_attack c w examples labels step_size verbose'))
   \<and> snd (PGD_attack c w examples labels step_size 1 False True verbose)
     = snd (FGSM_attack c w examples labels step_size verbose')
   \<and> param_values (delta (fst (PGD_attack c w examples labels step_size 1 False True verbose)))
     = param_values (delta (fst (FGSM_attack c w examples labels step_size verbose')))
   \<and> perturbed c (fst (PGD_attack c w examples labels step_size 1 False True verbose)) examples
     = perturbed c (fst (FGSM_attack c w examples labels step_size verbose')) examples
   \<and> originals (fst (PGD_attack c w examples labels step_size 1 False True verbose))
     = originals (fst (FGSM_attack c w examples labels step_size verbose'))"
  by (simp add: PGD_one_signed_step [where verbose' = verbose'] perturbed_def
      split: prod.splits) (simp add: zero_grad_def)

text \<open>
  C5: the single-step attack moves every parameter of the fresh perturbation by
  \<open>step_size * sign(gradient)\<close>, the gradient being that of the loss with the clean
  batch as reference state; it back-propagates once, releases the reference state,
  attaches the originals, and leaves the classifier's parameter values as they were.
\<close>

theorem FGSM_attack_single_step:
  assumes "length (dloss_dpert c (Some examples) EvalMode (param_values (net w))
              (threat_params c examples) examples labels) = length (threat_params c examples)"
  shows "(case FGSM_attack c w examples labels step_size verbose of (p, w') \<Rightarrow>
      param_values (delta p) =
        map2 (\<lambda>d g. map2 (\<lambda>a b. a + step_size * sgn b) d g) (threat_params c examples)
          (dloss_dpert c (Some examples) EvalMode (param_values (net w))
              (threat_params c examples) examples labels)
    \<and> map grad (delta p) = map Some (dloss_dpert c (Some examples) EvalMode (param_values (net w))
              (threat_params c examples) examples labels)
    \<and> originals p = Some examples
    \<and> loss_ref w' = None
    \<and> net_mode w' = EvalMode
    \<and> backprops w' = Suc (backprops w)
    \<and> param_values (net w') = param_values (net w))"
  unfolding FGSM_attack_unfold
  using step_fresh_values [OF assms, of "update_fxn step_size"]
        step_fresh_grads [OF assms, of "update_fxn step_size"]
  by (simp add: map2_sign_step)

theorem FGSM_attack_single_step_witness:
  "length (dloss_dpert example_collaborators (Some [5, 6]) EvalMode
             (param_values (net example_world)) (threat_params example_collaborators [5, 6])
             [5, 6] [1, 0])
     = length (threat_params example_collaborators [5, 6])
   \<and> param_values (delta (fst (FGSM_attack example_collaborators example_world [5, 6] [1, 0]
         (1 / 10) True))) = [[1 / 10, - (1 / 10)]]
   \<and> originals (fst (FGSM_attack example_collaborators example_world [5, 6] [1, 0]
         (1 / 10) True)) = Some [5, 6]
   \<and> backprops (snd (FGSM_attack example_collaborators example_world [5, 6] [1, 0]
         (1 / 10) True)) = 1"
proof -
  have h: "length (dloss_dpert example_collaborators (Some [5, 6]) EvalMode
             (param_values (net example_world)) (threat_params example_collaborators [5, 6])
             [5, 6] [1, 0])
     = length (threat_params example_collaborators [5, 6])"
    by (simp add: example_collaborators_def)
  show ?thesis
    using h FGSM_attack_single_step [OF h, of "1 / 10" True]
    by (simp add: example_collaborators_def example_world_def split: prod.splits)
qed


section \<open>Facts about optimizers\<close>

lemma step_param_fst: "fst (fst (step_param rule rate rs st)) = fst rs"
  by (cases rs) (auto simp: step_param_def split: option.splits prod.splits)

lemma step_groups_Cons:
  "step_groups rule rate (rs # gs) st =
     (fst (step_param rule rate rs st)
        # fst (step_groups rule rate gs (snd (step_param rule rate rs st))),
      snd (step_groups rule rate gs (snd (step_param rule rate rs st))))"
  by (simp split: prod.splits)

lemma step_groups_refs: "map fst (fst (step_groups rule rate gs st)) = map fst gs"
  by (induction gs arbitrary: st)
     (simp_all add: step_groups_Cons step_param_fst del: step_groups.simps(2))


lemma step_param_pert:
  assumes "is_pert (fst rs)"
  shows "\<exists>rs' ps'. \<forall>ns. step_param rule rate rs (ns, ps) = (rs', (ns, ps'))"
proof -
  have "\<forall>ns. step_param rule rate rs (ns, ps) =
          (fst (step_param rule rate rs ([], ps)),
           (ns, snd (snd (step_param rule rate rs ([], ps)))))"
    using assms
    by (cases rs; cases "fst rs") (auto simp: step_param_def split: option.splits prod.splits)
  then show ?thesis by blast
qed


lemma step_groups_pert:
  assumes "list_all is_pert (map fst gs)"
  shows "\<exists>gs' ps'. \<forall>ns. step_groups rule rate gs (ns, ps) = (gs', (ns, ps'))"
  using assms
proof (induction gs arbitrary: ps)
  case Nil
  show ?case by simp
next
  case (Cons rs gs)
  then have a: "is_pert (fst rs)" and b: "list_all is_pert (map fst gs)" by simp_all
  from step_param_pert [OF a] obtain rs' ps1
    where 1: "\<And>ns. step_param rule rate rs (ns, ps) = (rs', (ns, ps1))" by metis
  from Cons.IH [OF b] obtain gs' ps2
    where 2: "\<And>ns. step_groups rule rate gs (ns, ps1) = (gs', (ns, ps2))" by metis
  have "\<forall>ns. step_groups rule rate (rs # gs) (ns, ps) = (rs' # gs', (ns, ps2))"
    by (simp add: 1 2)
  then show ?case by blast
qed


lemma optimizer_step_pert:
  assumes "list_all is_pert (map fst (param_groups opt))"
  shows "\<exists>opt' ps'. list_all is_pert (map fst (param_groups opt')) \<and>
           (\<forall>ns. optimizer_step opt (ns, ps) = (opt', (ns, ps')))"
proof -
  from step_groups_pert [OF assms] obtain gs' ps'
    where 1: "\<And>ns. step_groups (update_rule opt) (lr opt) (param_groups opt) (ns, ps)
                 = (gs', (ns, ps'))"
    by metis
  have "map fst gs' = map fst (param_groups opt)"
    using step_groups_refs [of "update_rule opt" "lr opt" "param_groups opt" "([], ps)"]
    by (simp add: 1)
  then have "list_all is_pert (map fst (param_groups (opt\<lparr>param_groups := gs'\<rparr>)))"
    using assms by simp
  moreover have "\<forall>ns. optimizer_step opt (ns, ps) = (opt\<lparr>param_groups := gs'\<rparr>, (ns, ps'))"
    by (simp add: optimizer_step_def 1)
  ultimately show ?thesis by blast
qed


lemma Adam_parameters_pert:
  "list_all is_pert (map fst (param_groups (Adam rule (parameters p) rate)))"
  by (simp add: Adam_def parameters_def list_all_iff comp_def)

lemma Adam_classifier_parameters_net:
  "list_all is_net (map fst (param_groups (Adam rule (classifier_parameters ns) rate)))"
  by (simp add: Adam_def classifier_parameters_def list_all_iff comp_def)

section \<open>Facts about the loop of the multi-step attack\<close>

lemma same_view_refl [simp]: "same_view w w"
  by (simp add: same_view_def)

lemma same_view_trans: "same_view a b \<Longrightarrow> same_view b c \<Longrightarrow> same_view a c"
  by (simp add: same_view_def)

lemma same_view_backward:
  assumes "same_view w w'"
  shows "fst (backward c x y (p, w)) = fst (backward c x y (p, w'))"
    and "same_view (snd (backward c x y (p, w))) (snd (backward c x y (p, w')))"
    and "same_view w (snd (backward c x y (p, w)))"
    and "rng (snd (backward c x y (p, w))) = rng w"
    and "backprops (snd (backward c x y (p, w))) = Suc (backprops w)"
  using assms by (simp_all add: backward_def same_view_def Let_def)

lemma pgd_iteration_view:
  assumes v: "same_view w w'" and o: "list_all is_pert (map fst (param_groups opt))"
  shows "\<exists>p1 o1 w1 w1'. pgd_iteration c x y s sg (p, w, opt) = (p1, w1, o1)
          \<and> pgd_iteration c x y s sg (p, w', opt) = (p1, w1', o1)
          \<and> same_view w1 w1' \<and> same_view w w1
          \<and> list_all is_pert (map fst (param_groups o1))
          \<and> rng w1 = rng w \<and> backprops w1 = Suc (backprops w)"
proof -
  obtain p2 w2 where b: "backward c x y (zero_grad p, w) = (p2, w2)"
    by (cases "backward c x y (zero_grad p, w)")
  obtain p2' w2' where b': "backward c x y (zero_grad p, w') = (p2', w2')"
    by (cases "backward c x y (zero_grad p, w')")
  from same_view_backward [OF v, of c x y "zero_grad p"] b b'
  have e: "p2' = p2" and v2: "same_view w2 w2'" and v3: "same_view w w2"
    and r: "rng w2 = rng w" and k: "backprops w2 = Suc (backprops w)" by simp_all
  show ?thesis
  proof (cases sg)
    case True
    then show ?thesis using b b' e v2 v3 o r k by (simp add: pgd_iteration_def)
  next
    case False
    from optimizer_step_pert [OF o, of "delta p2"] obtain o1 ps1
      where 1: "list_all is_pert (map fst (param_groups o1))"
        and 2: "\<And>ns. optimizer_step opt (ns, delta p2) = (o1, (ns, ps1))" by metis
    show ?thesis using False b b' e v2 v3 r k 1 by (simp add: pgd_iteration_def 2)
  qed
qed

lemma pgd_loop_view:
  assumes "same_view w w'" and "list_all is_pert (map fst (param_groups opt))"
  shows "\<exists>p1 o1 w1 w1'. pgd_loop c x y s sg n (p, w, opt) = (p1, w1, o1)
          \<and> pgd_loop c x y s sg n (p, w', opt) = (p1, w1', o1)
          \<and> same_view w1 w1' \<and> same_view w w1
          \<and> rng w1 = rng w \<and> backprops w1 = backprops w + n"
  using assms
proof (induction n arbitrary: p w w' opt)
  case 0
  then show ?case by simp
next
  case (Suc n)
  from pgd_iteration_view [OF Suc.prems, of c x y s sg p] obtain p1 o1 w1 w1'
    where 1: "pgd_iteration c x y s sg (p, w, opt) = (p1, w1, o1)"
      and 2: "pgd_iteration c x y s sg (p, w', opt) = (p1, w1', o1)"
      and 3: "same_view w1 w1'" and 4: "same_view w w1"
      and 5: "list_all is_pert (map fst (param_groups o1))"
      and 6: "rng w1 = rng w" and 7: "backprops w1 = Suc (backprops w)" by blast
  from Suc.IH [OF 3 5, of p1] obtain p2 o2 w2 w2'
    where a: "pgd_loop c x y s sg n (p1, w1, o1) = (p2, w2, o2)"
      and b: "pgd_loop c x y s sg n (p1, w1', o1) = (p2, w2', o2)"
      and c: "same_view w2 w2'" and d: "same_view w1 w2"
      and e: "rng w2 = rng w1" and f: "backprops w2 = backprops w1 + n" by blast
  show ?case using 1 2 a b c same_view_trans [OF 4 d] e f 6 7 by simp
qed

lemma PGD_attack_same_classifier:
  assumes "param_values (net w') = param_values (net w)"
  shows "fst (PGD_attack c w' x y s n False sg v') = fst (PGD_attack c w x y s n False sg v)"
proof -
  let ?w = "setup_attack_batch x (w\<lparr>net_mode := EvalMode\<rparr>)"
  let ?w' = "setup_attack_batch x (w'\<lparr>net_mode := EvalMode\<rparr>)"
  have sv: "same_view ?w ?w'" using assms by (simp add: same_view_def setup_attack_batch_def)
  from pgd_loop_view [where c = c and x = x and y = y and s = s
      and sg = sg and n = "nat n" and p = "new_perturbation c x", OF sv Adam_parameters_pert]
  obtain p1 o1 w1 w1' where
    "pgd_loop c x y s sg (nat n)
       (new_perturbation c x, ?w, Adam (adam c) (parameters (new_perturbation c x)) 0.0005)
       = (p1, w1, o1)"
    "pgd_loop c x y s sg (nat n)
       (new_perturbation c x, ?w', Adam (adam c) (parameters (new_perturbation c x)) 0.0005)
       = (p1, w1', o1)"
    by blast
  then show ?thesis by (simp add: PGD_attack_def Let_def)
qed

lemma PGD_attack_frame:
  "param_values (net (snd (PGD_attack c w x y s n ri sg v))) = param_values (net w)
   \<and> net_mode (snd (PGD_attack c w x y s n ri sg v)) = EvalMode
   \<and> loss_ref (snd (PGD_attack c w x y s n ri sg v)) = None
   \<and> backprops (snd (PGD_attack c w x y s n ri sg v)) = backprops w + nat n"
proof -
  let ?w = "setup_attack_batch x (w\<lparr>net_mode := EvalMode\<rparr>)"
  obtain p1 w3 where ri: "(if ri then random_init c (new_perturbation c x, ?w)
                           else (new_perturbation c x, ?w)) = (p1, w3)"
    by (cases "(if ri then random_init c (new_perturbation c x, ?w)
                else (new_perturbation c x, ?w))")
  have w3: "param_values (net w3) = param_values (net w) \<and> net_mode w3 = EvalMode
              \<and> backprops w3 = backprops w"
    using ri by (auto simp: random_init_def setup_attack_batch_def split: if_splits prod.splits)
  from pgd_loop_view [where c = c and x = x and w = w3
      and y = y and s = s and sg = sg and n = "nat n" and p = p1,
      OF same_view_refl Adam_parameters_pert]
  obtain p2 o2 w4 where l: "pgd_loop c x y s sg (nat n) (p1, w3, Adam (adam c) (parameters p1) 0.0005)
                              = (p2, w4, o2)"
    and sv: "same_view w3 w4" and bp: "backprops w4 = backprops w3 + nat n" by blast
  show ?thesis using ri l sv bp w3
    by (simp add: PGD_attack_def Let_def same_view_def cleanup_attack_batch_def)
qed

lemma zero_grad_without_gradients:
  "list_all (\<lambda>t. grad t = None) ts \<Longrightarrow> map zero_tensor_grad ts = ts"
  by (induction ts) (simp_all add: zero_tensor_grad_def)

lemma set_values_without_gradients:
  "list_all (\<lambda>t. grad t = None) ts \<Longrightarrow> list_all (\<lambda>t. grad t = None) (set_values ts ds)"
proof -
  assume a: "list_all (\<lambda>t. grad t = None) ts"
  have "grad (fst td\<lparr>data := snd td\<rparr>) = None" if "td \<in> set (zip ts ds)" for td
  proof -
    obtain t d where td: "td = (t, d)" by (cases td)
    have "fst td \<in> set ts" using that set_zip_leftD [of t d ts ds] by (simp add: td)
    then show ?thesis using a by (simp add: list_all_iff)
  qed
  then show ?thesis by (auto simp: set_values_def list_all_iff)
qed

lemma new_perturbation_without_gradients:
  "list_all (\<lambda>t. grad t = None) (delta (new_perturbation c x))"
  by (simp add: new_perturbation_def list_all_iff)

lemma zero_grad_random_init:
  "zero_grad (fst (random_init c (new_perturbation c x, w)))
     = fst (random_init c (new_perturbation c x, w))"
proof -
  obtain ds r where 1: "randomize c (rng w) (param_values (delta (new_perturbation c x))) = (ds, r)"
    by (cases "randomize c (rng w) (param_values (delta (new_perturbation c x)))")
  show ?thesis
    using zero_grad_without_gradients
      [OF set_values_without_gradients [OF new_perturbation_without_gradients, of c x ds]]
    by (simp add: random_init_def 1 zero_grad_def)
qed


section \<open>Zero iterations, and determinism\<close>

text \<open>
  C6: with \<open>num_iterations = 0\<close> the multi-step attack returns the perturbation as the
  threat model built it, or as the random initialisation left it when that was requested:
  the final \<open>zero_grad\<close> finds no gradient to clear, so the parameters are those of the
  start (the threat model's values without random initialisation); the originals are
  attached, the reference state of the loss is released, nothing was back-propagated and
  the classifier's parameters are untouched.
\<close>

theorem PGD_attack_zero_iterations:
  "PGD_attack c w examples labels step_size 0 do_random_init signed verbose =
     (let start = (if do_random_init
                   then random_init c (new_perturbation c examples,
                          setup_attack_batch examples (w\<lparr>net_mode := EvalMode\<rparr>))
                   else (new_perturbation c examples,
                          setup_attack_batch examples (w\<lparr>net_mode := EvalMode\<rparr>)))
      in (attach_originals examples (zero_grad (fst start)), cleanup_attack_batch (snd start)))
   \<and> delta (fst (PGD_attack c w examples labels step_size 0 do_random_init signed verbose)) =
       delta (fst (if do_random_init
                   then random_init c (new_perturbation c examples,
                          setup_attack_batch examples (w\<lparr>net_mode := EvalMode\<rparr>))
                   else (new_perturbation c examples,
                          setup_attack_batch examples (w\<lparr>net_mode := EvalMode\<rparr>))))
   \<and> param_values (delta (fst (PGD_attack c w examples labels step_size 0 False signed verbose)))
       = threat_params c examples
   \<and> originals (fst (PGD_attack c w examples labels step_size 0 do_random_init signed verbose))
       = Some examples
   \<and> loss_ref (snd (PGD_attack c w examples labels step_size 0 do_random_init signed verbose))
       = None
   \<and> net (snd (PGD_attack c w examples labels step_size 0 do_random_init signed verbose)) = net w
   \<and> backprops (snd (PGD_attack c w examples labels step_size 0 do_random_init signed verbose))
       = backprops w"
proof -
  let ?w = "setup_attack_batch examples (w\<lparr>net_mode := EvalMode\<rparr>)"
  let ?p = "new_perturbation c examples"
  have z: "zero_grad (fst (random_init c (?p, ?w))) = fst (random_init c (?p, ?w))"
    by (rule zero_grad_random_init)
  have u: "PGD_attack c w examples labels step_size 0 ri signed verbose =
     (attach_originals examples (zero_grad (fst (if ri then random_init c (?p, ?w) else (?p, ?w)))),
      cleanup_attack_batch (snd (if ri then random_init c (?p, ?w) else (?p, ?w))))" for ri
    by (simp add: PGD_attack_def Let_def split: prod.splits)
  have r: "net (snd (random_init c (?p, ?w))) = net w
           \<and> backprops (snd (random_init c (?p, ?w))) = backprops w"
    by (simp add: random_init_def setup_attack_batch_def split: prod.splits)
  have v: "param_values (delta (fst (PGD_attack c w examples labels step_size 0 False signed verbose)))
             = threat_params c examples"
    by (simp add: u attach_originals_def) (simp add: new_perturbation_def param_values_def comp_def)
  show ?thesis
  proof (cases do_random_init)
    case True
    then show ?thesis
      using z r v
      by (simp add: u Let_def attach_originals_def cleanup_attack_batch_def)
  next
    case False
    then show ?thesis
      using v
      by (simp add: u Let_def attach_originals_def cleanup_attack_batch_def
          setup_attack_batch_def)
  qed
qed

text \<open>
  C8: without random initialisation the multi-step attack returns the same perturbation
  (parameters, gradients and originals) from any two worlds in which the classifier has
  the same parameter values, whatever the state of the random generator, the gradient
  buffers of the classifier, the mode or the verbosity are; so a second call with the
  same arguments repeats the first.
\<close>

theorem PGD_attack_deterministic:
  assumes "param_values (net w') = param_values (net w)"
  shows "fst (PGD_attack c w' examples labels step_size num_iterations False signed verbose')
       = fst (PGD_attack c w examples labels step_size num_iterations False signed verbose)"
  using assms by (rule PGD_attack_same_classifier)

section \<open>The multi-step attack at a concrete input\<close>

lemma example_PGD_value:
  "param_values (delta (fst (PGD_attack example_collaborators example_world [5, 6] [1, 0]
       (1 / 10) 2 False True True))) = [[2 / 10, - (2 / 10)]]"
  by (simp add: PGD_attack_def pgd_iteration_def backward_def setup_attack_batch_def
      cleanup_attack_batch_def attach_originals_def update_params_def new_perturbation_def
      zero_grad_def zero_tensor_grad_def update_tensor_def update_fxn_def accumulate_def
      example_collaborators_def example_world_def Let_def param_values_def eval_nat_numeral)

theorem PGD_attack_deterministic_witness:
  "param_values (net ((snd (PGD_attack example_collaborators example_world [5, 6] [1, 0]
       (1 / 10) 2 False True True))\<lparr>rng := 42\<rparr>))
     = param_values (net example_world)
   \<and> param_values (delta (fst (PGD_attack example_collaborators
        ((snd (PGD_attack example_collaborators example_world [5, 6] [1, 0]
           (1 / 10) 2 False True True))\<lparr>rng := 42\<rparr>)
        [5, 6] [1, 0] (1 / 10) 2 False True False))) = [[2 / 10, - (2 / 10)]]"
proof -
  let ?w' = "(snd (PGD_attack example_collaborators example_world [5, 6] [1, 0]
       (1 / 10) 2 False True True))\<lparr>rng := 42\<rparr>"
  have h: "param_values (net ?w') = param_values (net example_world)"
    using PGD_attack_frame [of example_collaborators example_world "[5, 6]" "[1, 0]" "1 / 10" 2
        False True True] by simp
  show ?thesis
    using h PGD_attack_deterministic [OF h, of example_collaborators "[5, 6]" "[1, 0]" "1 / 10" 2
        True False True] example_PGD_value
    by simp
qed

section \<open>The training and evaluation loops at concrete inputs\<close>

lemmas action_defs = andthen_def succeed_def raise_def alloc_def shape0_def assert_def
  set_mode_def

text \<open>
  C1: a minibatch of one example with half of it to attack has an empty selection. The
  wrapper returns the triple of \<open>None\<close>, and \<open>_attack_subroutine\<close> then raises
  \<open>TypeError\<close> from \<open>torch.cat([inputs, None])\<close> instead of returning the clean batch.
\<close>

theorem attack_subroutine_raises_on_empty_selection:
  "attack example_attack_parameters 0 1 example_process
     = (Inr (None, None, None),
        example_process\<lparr>heap := heap example_process @ [LongTensor []]\<rparr>)
   \<and> attack_subroutine example_trainer (Some example_attack_parameters) 0 1 0 0 example_process
     = (Inl TypeError, example_process\<lparr>heap := heap example_process @ [LongTensor []]\<rparr>)"
  by (simp add: attack_subroutine_def attack_def example_attack_parameters_def
      example_attack_obj_def example_process_def example_trainer_def select_idxs_def
      random_sample_def py_int_def at_cadence_def torch_cat_def action_defs)

text \<open>
  C7: \<open>train\<close> called with \<open>attack_parameters = None\<close> (and \<open>use_gpu = False\<close>) raises
  \<open>AttributeError\<close> at \<open>attack_parameters.set_gpu(use_gpu)\<close>, before the first epoch,
  whatever the other arguments are.
\<close>

theorem train_without_attack_raises:
  "train pf self data_loader num_epochs optimizer None False verbosity proc
     = (Inl AttributeError, proc\<lparr>clf_mode := TrainMode\<rparr>)"
  by (simp add: train_def call_set_gpu_def action_defs)

text \<open>
  C2: one minibatch of two correctly classified examples, half of it attacked by an
  attack that changes nothing. The attacked subset has one example and it is classified
  correctly, yet the meter of the attack ends with count 2 and average 1/2: the count of
  correct answers is divided by the size of the whole minibatch and weighted by it.
\<close>

theorem evaluate_weights_by_full_minibatch:
  "(case fst (evaluate example_platform (\<lambda>proc x. x) [([7, 8], [7, 8])]
              [(''fgsm'', example_attack_parameters)] False None example_process) of
      Inr results \<Rightarrow> results ''fgsm'' = Some (1 / 2) \<and> results ''ground'' = Some 1
    | Inl e \<Rightarrow> False)
   \<and> (case fst (evaluate_minibatch (\<lambda>proc x. x) [(''fgsm'', example_attack_parameters)] False
              ([7, 8], [7, 8]) (new_results [(''fgsm'', example_attack_parameters)])
              example_process) of
      Inr meters \<Rightarrow>
        meters ''fgsm'' = Some \<lparr>meter_sum = 1, meter_count = 2, meter_avg = 1 / 2\<rparr>
    | Inl e \<Rightarrow> False)"
  by (simp add: evaluate_def evaluate_minibatch_def evaluate_attack_def attack_def
      example_attack_parameters_def example_attack_obj_def example_process_def
      example_platform_def select_idxs_def random_sample_def py_int_def new_results_def
      set_gpu_def on_device_def ground_predictions_def read_labels_def float_div_def
      accuracy_int_def update_result_def meter_update_def AverageMeter_def index_select_def
      Variable_def eval_attack_only_def obj_eval_attack_only_def predictions_def action_defs)

section \<open>The two optimizers\<close>





section \<open>Framing: what an action leaves of the heap\<close>

lemma framedI:
  fixes m :: "('a, 'x) action"
  assumes "\<And>(proc :: 'x process) r proc'. n \<le> length (heap proc) \<Longrightarrow> m proc = (r, proc') \<Longrightarrow>
             n \<le> length (heap proc') \<and> take n (heap proc') = take n (heap proc)
               \<and> (case r of Inl e \<Rightarrow> True | Inr a \<Rightarrow> Q a)"
  shows "framed n m Q"
  unfolding framed_def
proof (intro allI impI)
  fix proc :: "'x process"
  assume n: "n \<le> length (heap proc)"
  obtain r proc' where e: "m proc = (r, proc')" by (cases "m proc")
  show "case m proc of (r, proc') \<Rightarrow>
          n \<le> length (heap proc') \<and> take n (heap proc') = take n (heap proc)
            \<and> (case r of Inl e \<Rightarrow> True | Inr a \<Rightarrow> Q a)"
    using assms [OF n e] by (simp add: e)
qed

lemma framedD:
  assumes "framed n m Q" "n \<le> length (heap proc)" "m proc = (r, proc')"
  shows "n \<le> length (heap proc')" "take n (heap proc') = take n (heap proc)"
    "\<And>a. r = Inr a \<Longrightarrow> Q a"
  using assms by (auto simp: framed_def split: prod.splits sum.splits)

lemma framed_weaken: "framed n m Q \<Longrightarrow> (\<And>a. Q a \<Longrightarrow> R a) \<Longrightarrow> framed n m R"
  by (auto simp: framed_def split: prod.splits sum.splits)

lemma framed_succeed: "Q a \<Longrightarrow> framed n (succeed a) Q"
  by (simp add: framed_def succeed_def)

lemma framed_raise: "framed n (raise e) Q"
  by (simp add: framed_def raise_def)

lemma framed_andthen:
  assumes m: "framed n m Q" and f: "\<And>a. Q a \<Longrightarrow> framed n (f a) R"
  shows "framed n (andthen m f) R"
proof (rule framedI)
  fix proc r proc'
  assume n: "n \<le> length (heap proc)" and e: "andthen m f proc = (r, proc')"
  obtain r1 proc1 where e1: "m proc = (r1, proc1)" by (cases "m proc")
  note d = framedD [OF m n e1]
  show "n \<le> length (heap proc') \<and> take n (heap proc') = take n (heap proc)
          \<and> (case r of Inl e \<Rightarrow> True | Inr a \<Rightarrow> R a)"
  proof (cases r1)
    case (Inl err)
    then show ?thesis using e e1 d by (auto simp: andthen_def)
  next
    case (Inr a)
    then have e2: "f a proc1 = (r, proc')" using e e1 by (simp add: andthen_def)
    from framedD [OF f [OF d(3) [OF Inr]] d(1) e2] d(2)
    show ?thesis by (auto split: sum.splits)
  qed
qed

lemma framed_if:
  "(b \<Longrightarrow> framed n m Q) \<Longrightarrow> (\<not> b \<Longrightarrow> framed n m' Q) \<Longrightarrow> framed n (if b then m else m') Q"
  by simp

lemma framed_alloc: "framed n (alloc t) (\<lambda>r. n \<le> r)"
  by (simp add: framed_def alloc_def)

lemma framed_shape0: "framed n (shape0 r) (\<lambda>_. True)"
  by (simp add: framed_def shape0_def)

lemma framed_index_select: "framed n (index_select src idxs) (\<lambda>r. n \<le> r)"
  by (auto simp: framed_def index_select_def raise_def alloc_def
      split: option.splits tensor.splits)

lemma framed_torch_cat: "framed n (torch_cat a b) (\<lambda>r. n \<le> r)"
  by (auto simp: framed_def torch_cat_def raise_def alloc_def split: option.splits)

lemma framed_Variable: "(\<And>r. t = Some r \<Longrightarrow> Q r) \<Longrightarrow> framed n (Variable t) Q"
  by (auto simp: framed_def Variable_def raise_def succeed_def split: option.splits)

lemma framed_random_sample: "framed n (random_sample population k) (\<lambda>_. True)"
  by (auto simp: framed_def random_sample_def raise_def split: prod.splits)

lemma framed_select_idxs: "framed n (select_idxs p k) (\<lambda>_. True)"
  unfolding select_idxs_def
  by (rule framed_andthen [OF framed_random_sample]) (simp add: framed_succeed)

lemma framed_predictions: "framed n (predictions obj r) (\<lambda>_. True)"
  by (simp add: framed_def predictions_def)

lemma framed_read_labels: "framed n (read_labels r) (\<lambda>_. True)"
  by (simp add: framed_def read_labels_def)

lemma framed_accuracy: "framed n (accuracy ps ys) (\<lambda>_. True)"
  by (simp add: framed_def accuracy_def raise_def succeed_def)

lemma framed_at_cadence: "framed n (at_cadence level counter cadence) (\<lambda>_. True)"
  by (auto simp: framed_def at_cadence_def raise_def succeed_def split: option.splits)

lemma framed_obj_eval: "framed n (obj_eval obj g a l) (\<lambda>_. True)"
  unfolding obj_eval_def
  by (intro framed_andthen [OF framed_predictions] framed_andthen [OF framed_read_labels]
      framed_andthen [OF framed_accuracy] framed_succeed) simp

lemma framed_wrapper_eval: "framed n (wrapper_eval ap g a l i) (\<lambda>_. True)"
  unfolding wrapper_eval_def
  by (intro framed_andthen [OF framed_index_select]
      framed_andthen [OF framed_Variable [where Q = "\<lambda>_. True"]] framed_obj_eval) simp

lemma framed_engine:
  assumes "engine_frame f" "n \<le> a" "n \<le> b"
  shows "framed n (f a b) (\<lambda>_. True)"
proof (rule framedI)
  fix proc r proc'
  assume n: "n \<le> length (heap proc)" and e: "f a b proc = (r, proc')"
  have s: "snd (f a b proc) = proc'" using e by simp
  have len: "length (heap proc) \<le> length (heap proc')"
    using assms(1) [unfolded engine_frame_def, rule_format, of proc a b] by (simp add: s)
  have same: "heap proc' ! i = heap proc ! i"
    if "i < length (heap proc)" "i \<noteq> a" "i \<noteq> b" for i
    using assms(1) [unfolded engine_frame_def, rule_format, of proc a b] that by (simp add: s)
  have "take n (heap proc') = take n (heap proc)"
  proof (rule nth_equalityI)
    show "length (take n (heap proc')) = length (take n (heap proc))" using n len by simp
  next
    fix i assume "i < length (take n (heap proc'))"
    then have i: "i < n" by simp
    then show "take n (heap proc') ! i = take n (heap proc) ! i"
      using same [of i] n assms(2,3) by simp
  qed
  then show "n \<le> length (heap proc') \<and> take n (heap proc') = take n (heap proc)
          \<and> (case r of Inl e \<Rightarrow> True | Inr a \<Rightarrow> True)"
    using n len by (simp split: sum.splits)
qed

lemma framed_filter:
  assumes "filter_frame f"
  shows "framed n (f a) (\<lambda>_. True)"
proof (rule framedI)
  fix proc r proc'
  assume n: "n \<le> length (heap proc)" and e: "f a proc = (r, proc')"
  have p: "preserves_heap proc proc'"
    using assms [unfolded filter_frame_def, rule_format, of proc a] e by simp
  have "take n (heap proc') = take n (heap proc)"
  proof (rule nth_equalityI)
    show "length (take n (heap proc')) = length (take n (heap proc))"
      using n p by (simp add: preserves_heap_def)
  next
    fix i assume "i < length (take n (heap proc'))"
    then have i: "i < n" by simp
    then show "take n (heap proc') ! i = take n (heap proc) ! i"
      using n p by (simp add: preserves_heap_def)
  qed
  then show "n \<le> length (heap proc') \<and> take n (heap proc') = take n (heap proc)
          \<and> (case r of Inl e \<Rightarrow> True | Inr a \<Rightarrow> True)"
    using n p by (simp add: preserves_heap_def split: sum.splits)
qed


lemma framed_attack:
  assumes "engine_frame (engine (adv_attack_obj ap))" and "filter_frame (output_filter ap)"
  shows "framed n (attack ap inputs labels) (\<lambda>_. True)"
  unfolding attack_def
  apply (rule framed_andthen [OF framed_shape0])
  apply (rule framed_andthen [OF framed_select_idxs])
  apply (rule framed_andthen [OF framed_alloc])
  apply (rule framed_andthen [OF framed_shape0])
  apply (rule framed_if)
   apply (rule framed_succeed, simp)
  apply (rule framed_andthen [OF framed_index_select])
  apply (rule framed_andthen [OF framed_index_select])
  apply (rule framed_andthen [OF framed_engine [OF assms(1)]])
    apply assumption
   apply assumption
  apply (rule framed_andthen [OF framed_filter [OF assms(2)]])
  apply (rule framed_succeed, simp)
  done

lemma framed_attack_subroutine:
  assumes "engine_frame (engine (adv_attack_obj ap))" and "filter_frame (output_filter ap)"
  shows "framed n (attack_subroutine self (Some ap) inputs labels e i)
           (\<lambda>r. n \<le> fst r \<and> n \<le> snd r)"
proof -
  have rest: "framed n
      (andthen (at_cadence (verbosity_level self) i (verbosity_adv self)) (\<lambda>printout.
       andthen (if printout
                then andthen (wrapper_eval ap inputs adv_inputs labels adv_idxs) (\<lambda>_. succeed ())
                else succeed ()) (\<lambda>_.
       andthen (torch_cat inputs adv_inputs) (\<lambda>inputs'.
       andthen (torch_cat labels adv_labels) (\<lambda>labels'.
         succeed (inputs', labels'))))))
      (\<lambda>r. n \<le> fst r \<and> n \<le> snd r)" for adv_inputs adv_labels adv_idxs
    apply (rule framed_andthen [OF framed_at_cadence])
    apply (rule framed_andthen [where Q = "\<lambda>_. True"])
     apply (rule framed_if)
      apply (rule framed_andthen [OF framed_wrapper_eval])
      apply (rule framed_succeed, simp)
     apply (rule framed_succeed, simp)
    apply (rule framed_andthen [OF framed_torch_cat])
    apply (rule framed_andthen [OF framed_torch_cat])
    apply (rule framed_succeed, simp)
    done
  show ?thesis
    unfolding attack_subroutine_def option.case
    apply (rule framed_andthen [OF framed_attack [OF assms]])
    apply (simp add: case_prod_beta)
    apply (rule rest)
    done
qed

lemma framed_preserves:
  assumes "framed (length (heap proc)) m Q"
  shows "preserves_heap proc (snd (m proc))"
proof -
  obtain r proc' where e: "m proc = (r, proc')" by (cases "m proc")
  from framedD(1,2) [OF assms order_refl e]
  have l: "length (heap proc) \<le> length (heap proc')"
    and t: "take (length (heap proc)) (heap proc') = heap proc" by simp_all
  have "heap proc' ! i = heap proc ! i" if "i < length (heap proc)" for i
    using nth_take [OF that, of "heap proc'"] t by simp
  then show ?thesis using l by (simp add: preserves_heap_def e)
qed

text \<open>
  C10: \<open>attack\<close> and \<open>_attack_subroutine\<close> leave every tensor that exists when they
  are called, the caller's inputs and labels among them, at its reference and with its
  content, whether they return or raise, provided the bound attack overwrites only the
  tensors it is handed (which are the fresh copies made by \<open>index_select\<close>) and the
  output filter overwrites none. The batch and labels that the subroutine returns after
  an attack are new tensors; without an attack it returns the caller's own.
\<close>

theorem attack_leaves_existing_tensors_unchanged:
  assumes "engine_frame (engine (adv_attack_obj ap))" and "filter_frame (output_filter ap)"
  shows "preserves_heap proc (snd (attack ap inputs labels proc))
       \<and> preserves_heap proc
           (snd (attack_subroutine self (Some ap) inputs labels epoch_num minibatch_num proc))
       \<and> (case fst (attack_subroutine self (Some ap) inputs labels epoch_num minibatch_num proc) of
             Inr (inputs', labels') \<Rightarrow>
               length (heap proc) \<le> inputs' \<and> length (heap proc) \<le> labels'
           | Inl err \<Rightarrow> True)
       \<and> attack_subroutine self None inputs labels epoch_num minibatch_num proc
           = (Inr (inputs, labels), proc)"
proof -
  let ?m = "attack_subroutine self (Some ap) inputs labels epoch_num minibatch_num"
  obtain r proc' where e: "?m proc = (r, proc')" by (cases "?m proc")
  have a: "preserves_heap proc (snd (attack ap inputs labels proc))"
    by (rule framed_preserves [OF framed_attack [OF assms]])
  have b: "preserves_heap proc (snd (?m proc))"
    by (rule framed_preserves [OF framed_attack_subroutine [OF assms]])
  have c: "length (heap proc) \<le> fst x \<and> length (heap proc) \<le> snd x" if "r = Inr x" for x
    using framedD(3) [OF framed_attack_subroutine [OF assms] order_refl e that] .
  have d: "attack_subroutine self None inputs labels epoch_num minibatch_num proc
           = (Inr (inputs, labels), proc)"
    by (simp add: attack_subroutine_def succeed_def)
  show ?thesis using a b c d by (auto simp: e split: sum.splits)
qed

lemma inplace_engine_frame: "engine_frame (engine (adv_attack_obj inplace_attack_parameters))"
  by (simp add: engine_frame_def inplace_attack_parameters_def inplace_attack_obj_def)

lemma succeed_filter_frame: "filter_frame (output_filter inplace_attack_parameters)"
  by (simp add: filter_frame_def preserves_heap_def inplace_attack_parameters_def succeed_def)

lemma inplace_attack_value:
  "attack_subroutine example_trainer (Some inplace_attack_parameters) 0 1 0 0 two_example_process
     = (Inr (5, 6),
        two_example_process\<lparr>heap :=
          [FloatTensor [7, 8], LongTensor [7, 8], LongTensor [1], FloatTensor [9], LongTensor [8],
           FloatTensor [7, 8, 9], LongTensor [7, 8, 8]], draws := []\<rparr>)"
  by (simp add: attack_subroutine_def attack_def inplace_attack_parameters_def
      inplace_attack_obj_def two_example_process_def example_trainer_def select_idxs_def
      random_sample_def py_int_def at_cadence_def torch_cat_def index_select_def action_defs)

theorem attack_leaves_existing_tensors_unchanged_witness:
  "engine_frame (engine (adv_attack_obj inplace_attack_parameters))
   \<and> filter_frame (output_filter inplace_attack_parameters)
   \<and> fst (attack_subroutine example_trainer (Some inplace_attack_parameters) 0 1 0 0
            two_example_process) = Inr (5, 6)
   \<and> heap (snd (attack_subroutine example_trainer (Some inplace_attack_parameters) 0 1 0 0
            two_example_process)) ! 0 = FloatTensor [7, 8]
   \<and> heap (snd (attack_subroutine example_trainer (Some inplace_attack_parameters) 0 1 0 0
            two_example_process)) ! 1 = LongTensor [7, 8]
   \<and> heap (snd (attack_subroutine example_trainer (Some inplace_attack_parameters) 0 1 0 0
            two_example_process)) ! 3 = FloatTensor [9]
   \<and> heap (snd (attack_subroutine example_trainer (Some inplace_attack_parameters) 0 1 0 0
            two_example_process)) ! 5 = FloatTensor [7, 8, 9]"
proof -
  let ?proc' = "snd (attack_subroutine example_trainer (Some inplace_attack_parameters) 0 1 0 0
            two_example_process)"
  have p: "preserves_heap two_example_process ?proc'"
    using attack_leaves_existing_tensors_unchanged
      [OF inplace_engine_frame succeed_filter_frame, of two_example_process 0 1 example_trainer 0 0]
    by blast
  have 0: "heap ?proc' ! 0 = FloatTensor [7, 8]"
    using p [unfolded preserves_heap_def, THEN conjunct2, rule_format, of 0]
    by (simp add: two_example_process_def)
  have 1: "heap ?proc' ! 1 = LongTensor [7, 8]"
    using p [unfolded preserves_heap_def, THEN conjunct2, rule_format, of 1]
    by (simp add: two_example_process_def)
  have v: "fst (attack_subroutine example_trainer (Some inplace_attack_parameters) 0 1 0 0
            two_example_process) = Inr (5, 6)"
    "heap ?proc' ! 3 = FloatTensor [9]" "heap ?proc' ! 5 = FloatTensor [7, 8, 9]"
    unfolding inplace_attack_value by (simp_all add: eval_nat_numeral)
  show ?thesis
    using inplace_engine_frame succeed_filter_frame 0 1 v by blast
qed


section \<open>The selection of the attack wrapper\<close>












end
